theory Spec2Isabelle
  imports Complex_Main
begin

section \<open>Python strings\<close>

text \<open>
  A Python \<open>str\<close> is a sequence of Unicode code points. A code point is a natural
  number here, so that the marker \<open>U+2666\<close> (the diamond) is one element, as it is for
  \<open>find\<close>, \<open>split\<close> and \<open>strip\<close> in Python. ASCII literals are written through
  \<open>ascii\<close>.
\<close>

type_synonym ustr = "nat list"

definition ascii :: "string \<Rightarrow> ustr" where
  "ascii s = map of_char s"

datatype py_error = IndexError | ValueError | AttributeError | KeyError

text \<open>
  \<open>str.isspace\<close> for one code point: the characters \<open>str.strip()\<close> removes when it
  is called with no argument.
\<close>

definition is_space :: "nat \<Rightarrow> bool" where
  "is_space c =
     ((9 \<le> c \<and> c \<le> 13) \<or> (28 \<le> c \<and> c \<le> 32) \<or> c = 133 \<or> c = 160 \<or> c = 5760
      \<or> (8192 \<le> c \<and> c \<le> 8202) \<or> c = 8232 \<or> c = 8233 \<or> c = 8239 \<or> c = 8287
      \<or> c = 12288)"

definition py_strip :: "ustr \<Rightarrow> ustr" where
  "py_strip s = rev (dropWhile is_space (rev (dropWhile is_space s)))"

fun startswith :: "'a list \<Rightarrow> 'a list \<Rightarrow> bool" where
  "startswith s [] = True"
| "startswith [] (p # ps) = False"
| "startswith (c # cs) (p # ps) = (c = p \<and> startswith cs ps)"

text \<open>\<open>find_idx sub s\<close> is the lowest index at which \<open>sub\<close> occurs in \<open>s\<close>.\<close>

fun find_idx :: "'a list \<Rightarrow> 'a list \<Rightarrow> nat option" where
  "find_idx sub [] = (if sub = [] then Some 0 else None)"
| "find_idx sub (c # cs) =
     (if startswith (c # cs) sub then Some 0
      else (case find_idx sub cs of None \<Rightarrow> None | Some i \<Rightarrow> Some (Suc i)))"

text \<open>\<open>text.find(sub)\<close>: the lowest index of \<open>sub\<close>, or \<open>-1\<close>.\<close>

definition py_find :: "'a list \<Rightarrow> 'a list \<Rightarrow> int" where
  "py_find s sub = (case find_idx sub s of None \<Rightarrow> - 1 | Some i \<Rightarrow> int i)"

text \<open>
  \<open>text.replace(old, new)\<close>: every non-overlapping occurrence of \<open>old\<close>, found from
  left to right in one pass, becomes \<open>new\<close>. With an empty \<open>old\<close> Python puts \<open>new\<close>
  before every character and at the end.
\<close>

fun py_replace :: "'a list \<Rightarrow> 'a list \<Rightarrow> 'a list \<Rightarrow> 'a list" where
  "py_replace [] old new = (if old = [] then new else [])"
| "py_replace (c # cs) old new =
     (if old = [] then new @ c # py_replace cs old new
      else if startswith (c # cs) old then new @ py_replace (drop (length old - 1) cs) old new
      else c # py_replace cs old new)"

text \<open>
  \<open>text.split(sep)\<close>: the pieces between the non-overlapping occurrences of \<open>sep\<close>,
  found from left to right; \<open>cur\<close> is the piece being read. An empty separator raises
  \<open>ValueError\<close>.
\<close>

fun split_from :: "'a list \<Rightarrow> 'a list \<Rightarrow> 'a list \<Rightarrow> 'a list list" where
  "split_from sep cur [] = [cur]"
| "split_from sep cur (c # cs) =
     (if startswith (c # cs) sep then cur # split_from sep [] (drop (length sep - 1) cs)
      else split_from sep (cur @ [c]) cs)"

definition py_split :: "'a list \<Rightarrow> 'a list \<Rightarrow> py_error + 'a list list" where
  "py_split s sep = (if sep = [] then Inl ValueError else Inr (split_from sep [] s))"

text \<open>\<open>xs[i]\<close> for a non-negative literal index \<open>i\<close>: \<open>IndexError\<close> out of range.\<close>

definition py_index :: "'a list \<Rightarrow> nat \<Rightarrow> py_error + 'a" where
  "py_index xs i = (if i < length xs then Inr (xs ! i) else Inl IndexError)"

text \<open>\<open>text.split(sep)[i]\<close>.\<close>

definition split_at :: "'a list \<Rightarrow> 'a list \<Rightarrow> nat \<Rightarrow> py_error + 'a list" where
  "split_at s sep i = (case py_split s sep of Inl e \<Rightarrow> Inl e | Inr ps \<Rightarrow> py_index ps i)"

section \<open>The text normalizer\<close>

definition nbsp :: ustr where
  "nbsp = ascii ''&nbsp''"

text \<open>The preferred-name marker: a space followed by the diamond \<open>U+2666\<close>.\<close>

definition diamond :: ustr where
  "diamond = [32, 9830]"

definition bracket :: ustr where
  "bracket = ascii ''[''"

definition formerly :: ustr where
  "formerly = ascii '' (formerly)''"

definition newline :: ustr where
  "newline = [10]"

text \<open>
  \<open>clean_text\<close> of \<open>pipelines/wikipedia_pipeline.py\<close>. The first test is
  \<open>if text.find(marker):\<close>, which Python takes as true for every result but \<open>0\<close>
  (\<open>-1\<close> included); the two others compare with \<open>-1\<close>.
\<close>

definition clean_text :: "ustr \<Rightarrow> py_error + ustr" where
  "clean_text text0 =
     (let t1 = py_replace (py_strip text0) nbsp [] in
      case (if py_find t1 diamond \<noteq> 0 then split_at t1 diamond 0 else Inr t1) of
        Inl e \<Rightarrow> Inl e
      | Inr t2 \<Rightarrow>
          (case (if py_find t2 bracket \<noteq> - 1 then split_at t2 bracket 0 else Inr t2) of
             Inl e \<Rightarrow> Inl e
           | Inr t3 \<Rightarrow>
               (case (if py_find t3 formerly \<noteq> - 1 then split_at t3 formerly 0 else Inr t3) of
                  Inl e \<Rightarrow> Inl e
                | Inr t4 \<Rightarrow> Inr (py_replace t4 newline []))))"

text \<open>\<open>clean_text\<close> of \<open>findtable.py\<close>: strip, then remove the newlines.\<close>

definition clean_text_ft :: "ustr \<Rightarrow> ustr" where
  "clean_text_ft s = py_replace (py_strip s) newline []"

text \<open>
  What \<open>text.split(m)[0]\<close> computes, stated directly: the text before the first
  occurrence of \<open>m\<close>, the whole text when \<open>m\<close> does not occur.
\<close>

definition cut_before :: "'a list \<Rightarrow> 'a list \<Rightarrow> 'a list" where
  "cut_before s m = (case find_idx m s of None \<Rightarrow> s | Some i \<Rightarrow> take i s)"

text \<open>The marker step of \<open>clean_text\<close> as the code performs it.\<close>

definition cut_marker :: "ustr \<Rightarrow> ustr" where
  "cut_marker t = (if py_find t diamond \<noteq> 0 then cut_before t diamond else t)"

section \<open>The normalizer stated by its cut point\<close>







section \<open>The parsed document\<close>

text \<open>
  BeautifulSoup is used through three capabilities only: the table elements of the
  document in document order with their class tokens, the \<open>tr\<close> elements of a table,
  and the \<open>td\<close> elements of a row. A cell gives its text and the result of
  \<open>td.find('img')\<close>: \<open>None\<close> without an image element, else the value of
  \<open>img.get('src')\<close>, itself \<open>None\<close> when the attribute is missing.
\<close>

record cell =
  cell_text :: ustr
  cell_img :: "ustr option option"

type_synonym row = "cell list"

record table =
  tbl_classes :: "ustr list"
  tbl_rows :: "row list"

type_synonym document = "table list"

text \<open>
  \<open>soup.find_all("table", {"class": wanted})\<close> with a list \<open>wanted\<close>: a table matches
  when one of its class tokens is one of the wanted strings.
\<close>

definition find_all_table :: "document \<Rightarrow> ustr list \<Rightarrow> table list" where
  "find_all_table soup wanted =
     filter (\<lambda>t. \<exists>c \<in> set (tbl_classes t). c \<in> set wanted) soup"

definition primary_classes :: "ustr list" where
  "primary_classes = [ascii ''wikitable'', ascii ''sortable'', ascii ''jquery-tablesorter'']"

definition secondary_classes :: "ustr list" where
  "secondary_classes = [ascii ''wikitable'', ascii ''standard'']"

section \<open>The row extractor\<close>

definition NO_IMAGE :: ustr where
  "NO_IMAGE = ascii
     ''https://upload.wikimedia.org/wikipedia/commons/thumb/0/0a/No-image-available.png/480px-No-image-available.png''"

text \<open>Sequencing of steps that may raise: the first exception ends the computation.\<close>

definition py_bind :: "py_error + 'a \<Rightarrow> ('a \<Rightarrow> py_error + 'b) \<Rightarrow> py_error + 'b" where
  "py_bind m f = (case m of Inl e \<Rightarrow> Inl e | Inr x \<Rightarrow> f x)"

text \<open>
  The dictionary \<open>values\<close> of one row. The loop body either fills all eight keys or
  none, so a row's dictionary is \<open>Some\<close> record or \<open>None\<close> for the empty \<open>{}\<close>.
\<close>

record raw_record =
  rank :: nat
  stadium :: ustr
  capacity :: ustr
  region :: ustr
  country :: ustr
  city :: ustr
  images :: ustr
  home_team :: ustr

text \<open>\<open>clean_text(tds[n].text) if len(tds) > n else ''\<close>.\<close>

definition cell_or_empty :: "row \<Rightarrow> nat \<Rightarrow> py_error + ustr" where
  "cell_or_empty tds n =
     (if n < length tds then py_bind (py_index tds n) (\<lambda>td. clean_text (cell_text td))
      else Inr [])"

text \<open>
  \<open>'https://' + td.find('img').get('src').split("//")[1] if td.find('img') else NO_IMAGE\<close>.
  A \<open>src\<close> of \<open>None\<close> has no \<open>split\<close> (\<open>AttributeError\<close>).
\<close>

definition image_of :: "cell \<Rightarrow> py_error + ustr" where
  "image_of td =
     (case cell_img td of
        None \<Rightarrow> Inr NO_IMAGE
      | Some None \<Rightarrow> Inl AttributeError
      | Some (Some src) \<Rightarrow>
          py_bind (split_at src (ascii ''//'') 1) (\<lambda>rest. Inr (ascii ''https://'' @ rest)))"

text \<open>
  The body of the loop of \<open>extract_wikipedia_data\<close> for the row of index \<open>i\<close>, up to
  the \<open>append\<close>. The diagnostic \<open>print\<close> of the \<open>else\<close> branch is not modelled.
\<close>

definition extract_row :: "nat \<Rightarrow> row \<Rightarrow> py_error + raw_record option" where
  "extract_row i tds =
     (if 3 \<le> length tds then
        py_bind (py_index tds 0) (\<lambda>td0.
        py_bind (clean_text (cell_text td0)) (\<lambda>v_stadium.
        py_bind (py_index tds 1) (\<lambda>td1.
        py_bind (clean_text (cell_text td1)) (\<lambda>v_capacity.
        py_bind (cell_or_empty tds 2) (\<lambda>v_region.
        py_bind (cell_or_empty tds 3) (\<lambda>v_country.
        py_bind (cell_or_empty tds 4) (\<lambda>v_city.
        py_bind (py_index tds 5) (\<lambda>td5.
        py_bind (image_of td5) (\<lambda>v_images.
        py_bind (cell_or_empty tds 6) (\<lambda>v_home_team.
        Inr (Some \<lparr>rank = i, stadium = v_stadium,
                   capacity = py_replace (py_replace v_capacity (ascii '','') []) (ascii ''.'') [],
                   region = v_region, country = v_country, city = v_city,
                   images = v_images, home_team = v_home_team\<rparr>)))))))))))
      else Inr None)"

text \<open>
  \<open>for i in range(i, ...)\<close> over the remaining rows: each row's dictionary is appended
  to \<open>data\<close>, the empty one of a short row included (the \<open>append\<close> stands after the
  \<open>if\<close>/\<open>else\<close>, not inside the \<open>if\<close>).
\<close>

fun extract_rows :: "nat \<Rightarrow> row list \<Rightarrow> py_error + raw_record option list" where
  "extract_rows i [] = Inr []"
| "extract_rows i (tds # rest) =
     py_bind (extract_row i tds) (\<lambda>vals.
     py_bind (extract_rows (Suc i) rest) (\<lambda>data. Inr (vals # data)))"

text \<open>
  \<open>extract_wikipedia_data\<close> after the parse: \<open>Inr None\<close> is the return of \<open>None\<close>
  ("No table found"), \<open>Inr (Some data)\<close> the frame built from \<open>data\<close>, \<open>Inl\<close> an
  exception. The loop runs over \<open>range(1, len(rows))\<close>.
\<close>

definition extract_soup :: "document \<Rightarrow> py_error + raw_record option list option" where
  "extract_soup soup =
     (case find_all_table soup primary_classes of
        [] \<Rightarrow> Inr None
      | t # _ \<Rightarrow> py_bind (extract_rows 1 (drop 1 (tbl_rows t))) (\<lambda>data. Inr (Some data)))"

text \<open>\<open>html_parser\<close> stands for \<open>BeautifulSoup(html, 'html.parser')\<close>.\<close>

definition extract_wikipedia_data ::
  "(ustr \<Rightarrow> document) \<Rightarrow> ustr \<Rightarrow> py_error + raw_record option list option" where
  "extract_wikipedia_data html_parser html = extract_soup (html_parser html)"

text \<open>\<open>get_wikipedia_data\<close> of the pipeline: the rows of the first table, or \<open>None\<close>.\<close>

definition get_wikipedia_data :: "(ustr \<Rightarrow> document) \<Rightarrow> ustr \<Rightarrow> row list option" where
  "get_wikipedia_data html_parser html =
     (case find_all_table (html_parser html) primary_classes of
        [] \<Rightarrow> None
      | t # _ \<Rightarrow> Some (tbl_rows t))"

subsection \<open>The extractor of findtable.py\<close>

record ft_record =
  ft_rank :: nat
  ft_stadium :: ustr
  ft_capacity :: ustr
  ft_region :: ustr

definition ft_extract_row :: "nat \<Rightarrow> row \<Rightarrow> py_error + ft_record option" where
  "ft_extract_row i tds =
     (if 3 \<le> length tds then
        py_bind (py_index tds 0) (\<lambda>td0.
        py_bind (py_index tds 1) (\<lambda>td1.
        py_bind (if 2 < length tds
                 then py_bind (py_index tds 2) (\<lambda>td2. Inr (clean_text_ft (cell_text td2)))
                 else Inr []) (\<lambda>v_region.
        Inr (Some \<lparr>ft_rank = i, ft_stadium = clean_text_ft (cell_text td0),
                   ft_capacity =
                     py_replace (py_replace (clean_text_ft (cell_text td1)) (ascii '','') [])
                       (ascii ''.'') [],
                   ft_region = v_region\<rparr>))))
      else Inr None)"

fun ft_extract_rows :: "nat \<Rightarrow> row list \<Rightarrow> py_error + ft_record option list" where
  "ft_extract_rows i [] = Inr []"
| "ft_extract_rows i (tds # rest) =
     py_bind (ft_extract_row i tds) (\<lambda>vals.
     py_bind (ft_extract_rows (Suc i) rest) (\<lambda>data. Inr (vals # data)))"

text \<open>
  The variable \<open>tables\<close> of \<open>get_wikipedia_data\<close> in \<open>findtable.py\<close> when the table is
  picked: the matches of the primary class list, those of the alternative list when
  there are none.
\<close>

definition ft_tables :: "document \<Rightarrow> table list" where
  "ft_tables soup =
     (let tables = find_all_table soup primary_classes
      in if tables = [] then find_all_table soup secondary_classes else tables)"

text \<open>\<open>get_wikipedia_data\<close> of \<open>findtable.py\<close>, from the parsed page on.\<close>

definition ft_get_wikipedia_data :: "document \<Rightarrow> py_error + ft_record option list option" where
  "ft_get_wikipedia_data soup =
     (case ft_tables soup of
        [] \<Rightarrow> Inr None
      | t # _ \<Rightarrow> py_bind (ft_extract_rows 1 (drop 1 (tbl_rows t))) (\<lambda>data. Inr (Some data)))"

text \<open>The dictionaries of \<open>data\<close> that are not empty, in order.\<close>

definition emitted :: "'a option list \<Rightarrow> 'a list" where
  "emitted data = concat (map (\<lambda>r. case r of None \<Rightarrow> [] | Some v \<Rightarrow> [v]) data)"

section \<open>Enrichment and the dedup pass\<close>

text \<open>
  A coordinate is the pair (latitude, longitude); the code only stores and compares
  coordinates. The geocoding service is an oracle: its answer may depend on the query
  string and on how many queries were sent before. The log \<open>qlog\<close> lists the query strings sent.
\<close>

type_synonym coord = "real \<times> real"

type_synonym geocoder = "nat \<Rightarrow> ustr \<Rightarrow> coord option"

definition get_lat_long ::
  "geocoder \<Rightarrow> ustr list \<Rightarrow> ustr \<Rightarrow> ustr \<Rightarrow> coord option \<times> ustr list" where
  "get_lat_long geocode qlog v_country v_city =
     (let q = v_city @ ascii '', '' @ v_country in (geocode (length qlog) q, qlog @ [q]))"

text \<open>
  A frame row built from the empty dictionary holds \<open>NaN\<close> in every column, which the
  f-string of \<open>get_lat_long\<close> prints as \<open>nan\<close>.
\<close>

definition row_country :: "raw_record option \<Rightarrow> ustr" where
  "row_country r = (case r of None \<Rightarrow> ascii ''nan'' | Some v \<Rightarrow> country v)"

definition row_city :: "raw_record option \<Rightarrow> ustr" where
  "row_city r = (case r of None \<Rightarrow> ascii ''nan'' | Some v \<Rightarrow> city v)"

text \<open>
  \<open>stadiums_df.apply(lambda x: get_lat_long(x['country'], x['city']), axis=1)\<close>: one
  call per row, in row order.
\<close>

fun locate_rows ::
  "geocoder \<Rightarrow> ustr list \<Rightarrow> raw_record option list \<Rightarrow> coord option list \<times> ustr list" where
  "locate_rows geocode qlog [] = ([], qlog)"
| "locate_rows geocode qlog (r # rs) =
     (case get_lat_long geocode qlog (row_country r) (row_city r) of
        (loc, qlog1) \<Rightarrow>
          (case locate_rows geocode qlog1 rs of (locs, qlog2) \<Rightarrow> (loc # locs, qlog2)))"

text \<open>\<open>x if x not in ['NO_IMAGE', '', None] else NO_IMAGE\<close> on an image string.\<close>

definition fix_image :: "ustr \<Rightarrow> ustr" where
  "fix_image x = (if x = ascii ''NO_IMAGE'' \<or> x = [] then NO_IMAGE else x)"

text \<open>
  \<open>stadiums_df['capacity'].astype(int)\<close>: the conversion \<open>to_int\<close> of the library is
  applied to every capacity; one failure, or one \<open>NaN\<close> row, raises for the whole
  column. The rows come back paired with their integer capacity.
\<close>

fun astype_int ::
  "(ustr \<Rightarrow> int option) \<Rightarrow> raw_record option list \<Rightarrow> py_error + (raw_record \<times> int) list" where
  "astype_int to_int [] = Inr []"
| "astype_int to_int (r # rs) =
     (case r of
        None \<Rightarrow> Inl ValueError
      | Some v \<Rightarrow>
          (case to_int (capacity v) of
             None \<Rightarrow> Inl ValueError
           | Some n \<Rightarrow> py_bind (astype_int to_int rs) (\<lambda>ns. Inr ((v, n) # ns))))"

text \<open>
  \<open>df.duplicated([col])\<close> with the default \<open>keep='first'\<close>: a row is flagged when an
  earlier row holds the same value.
\<close>

definition duplicated :: "'a list \<Rightarrow> bool list" where
  "duplicated xs = map (\<lambda>i. xs ! i \<in> set (take i xs)) [0..<length xs]"

text \<open>
  The second \<open>apply\<close>, over the flagged rows only, in row order. A row that is not
  flagged has no entry in \<open>duplicates\<close> (\<open>None\<close> here); a flagged row has the reply of
  its new query.
\<close>

fun requery ::
  "geocoder \<Rightarrow> ustr list \<Rightarrow> (bool \<times> raw_record) list \<Rightarrow> coord option option list \<times> ustr list"
  where
  "requery geocode qlog [] = ([], qlog)"
| "requery geocode qlog ((dup, r) # rest) =
     (if dup then
        (case get_lat_long geocode qlog (country r) (city r) of
           (loc, qlog1) \<Rightarrow>
             (case requery geocode qlog1 rest of (news, qlog2) \<Rightarrow> (Some loc # news, qlog2)))
      else
        (case requery geocode qlog rest of (news, qlog2) \<Rightarrow> (None # news, qlog2)))"

text \<open>
  \<open>stadiums_df.update(duplicates)\<close> on the location of one row: \<open>update\<close> takes the
  values of the other frame that are not NA, so a missing entry and a reply of \<open>None\<close>
  both leave the old location.
\<close>

definition update_location :: "coord option \<Rightarrow> coord option option \<Rightarrow> coord option" where
  "update_location old new = (case new of Some (Some c) \<Rightarrow> Some c | _ \<Rightarrow> old)"

record enriched =
  base :: raw_record
  capacity_int :: int
  location :: "coord option"

text \<open>
  \<open>transform_wikipedia_data\<close>, with the frame as the list of its rows. A frame built
  from empty dictionaries only has no \<open>country\<close> column (\<open>KeyError\<close>). The result
  comes with the log of the queries sent, also when an exception ends the function.
\<close>

definition transform_wikipedia_data ::
  "geocoder \<Rightarrow> (ustr \<Rightarrow> int option) \<Rightarrow> ustr list \<Rightarrow> raw_record option list
     \<Rightarrow> (py_error + enriched list) \<times> ustr list" where
  "transform_wikipedia_data geocode to_int qlog data =
     (if list_all (\<lambda>r. r = None) data then (Inl KeyError, qlog)
      else
        (case locate_rows geocode qlog data of
           (locs, qlog1) \<Rightarrow>
             (case astype_int to_int data of
                Inl e \<Rightarrow> (Inl e, qlog1)
              | Inr rows \<Rightarrow>
                  (case requery geocode qlog1 (zip (duplicated locs) (map fst rows)) of
                     (news, qlog2) \<Rightarrow>
                       (Inr (map (\<lambda>((r, n), (old, new)).
                                \<lparr>base = r\<lparr>images := fix_image (images r)\<rparr>,
                                 capacity_int = n,
                                 location = update_location old new\<rparr>)
                              (zip rows (zip locs news))),
                        qlog2)))))"

section \<open>The flow\<close>

text \<open>
  The world outside: the files written, the geocoder's query log and the pages
  requested over HTTP.
\<close>

record world =
  files :: "ustr \<Rightarrow> enriched list option"
  geo_log :: "ustr list"
  fetched :: "ustr list"

text \<open>\<open>get_wikipedia_page\<close>: the page's text, \<open>None\<close> on a request error.\<close>

definition get_wikipedia_page ::
  "(ustr \<Rightarrow> ustr option) \<Rightarrow> ustr \<Rightarrow> world \<Rightarrow> ustr option \<times> world" where
  "get_wikipedia_page http url w = (http url, w\<lparr>fetched := fetched w @ [url]\<rparr>)"

text \<open>
  \<open>wikipedia_data_pipeline\<close>: the exception that ended the flow, if any, and the world
  after it. The flow calls \<open>extract_wikipedia_data(url)\<close>.
\<close>

definition wikipedia_data_pipeline ::
  "(ustr \<Rightarrow> document) \<Rightarrow> geocoder \<Rightarrow> (ustr \<Rightarrow> int option) \<Rightarrow> ustr \<Rightarrow> ustr \<Rightarrow> world
     \<Rightarrow> py_error option \<times> world" where
  "wikipedia_data_pipeline html_parser geocode to_int url output_file w =
     (case extract_wikipedia_data html_parser url of
        Inl e \<Rightarrow> (Some e, w)
      | Inr None \<Rightarrow> (None, w)
      | Inr (Some data) \<Rightarrow>
          (case transform_wikipedia_data geocode to_int (geo_log w) data of
             (Inl e, qlog) \<Rightarrow> (Some e, w\<lparr>geo_log := qlog\<rparr>)
           | (Inr df, qlog) \<Rightarrow>
               (None, w\<lparr>geo_log := qlog, files := (files w)(output_file \<mapsto> df)\<rparr>)))"

section \<open>Instances used in the examples\<close>

text \<open>The integer conversion on strings of ASCII digits.\<close>

fun digits_val :: "int \<Rightarrow> ustr \<Rightarrow> int option" where
  "digits_val acc [] = Some acc"
| "digits_val acc (c # cs) =
     (if 48 \<le> c \<and> c \<le> 57 then digits_val (10 * acc + int (c - 48)) cs else None)"

definition decimal_int :: "ustr \<Rightarrow> int option" where
  "decimal_int s = (if s = [] then None else digits_val 0 s)"

text \<open>A cell with text only, and a row of seven such cells.\<close>

definition td :: "string \<Rightarrow> cell" where
  "td s = \<lparr>cell_text = ascii s, cell_img = None\<rparr>"

definition row7 :: "string \<Rightarrow> row" where
  "row7 s =
     [td s, td ''90,000'', td ''UEFA'', td ''England'', td ''London'', td [], td ''Spurs'']"

text \<open>A table of a header row and four data rows, the second of two cells only.\<close>

definition five_rows :: document where
  "five_rows =
     [\<lparr>tbl_classes = [ascii ''wikitable'', ascii ''sortable''],
       tbl_rows = [[], row7 ''Camp Nou'', [td ''x'', td ''y''], row7 ''Wembley'',
                   row7 ''Anfield'']\<rparr>]"

text \<open>A page whose only table carries the class \<open>standard\<close>.\<close>

definition standard_page :: document where
  "standard_page =
     [\<lparr>tbl_classes = [ascii ''standard''], tbl_rows = [[], row7 ''Camp Nou'']\<rparr>]"

text \<open>A parser double: markup only where the text has a \<open><\<close>.\<close>

definition parser_double :: "ustr \<Rightarrow> document" where
  "parser_double html = (if 60 \<in> set html then five_rows else [])"

definition stadium_url :: ustr where
  "stadium_url = ascii
     ''https://en.wikipedia.org/wiki/List_of_association_football_stadiums_by_capacity''"

definition empty_world :: world where
  "empty_world = \<lparr>files = (\<lambda>_. None), geo_log = [], fetched = []\<rparr>"





section \<open>Properties of the string operations\<close>

lemmas text_eval =
  clean_text_def clean_text_ft_def py_strip_def is_space_def py_find_def split_at_def
  py_split_def py_index_def nbsp_def diamond_def bracket_def formerly_def newline_def ascii_def

lemma split_from_length: "0 < length (split_from sep cur s)"
  by (induction sep cur s rule: split_from.induct) simp_all

lemma cut_before_Cons:
  "cut_before (c # cs) m = (if startswith (c # cs) m then [] else c # cut_before cs m)"
  by (simp add: cut_before_def split: option.splits)

lemma split_from_first: "split_from sep cur s ! 0 = cur @ cut_before s sep"
proof (induction sep cur s rule: split_from.induct)
  case (1 sep cur)
  show ?case by (simp add: cut_before_def)
next
  case (2 sep cur c cs)
  then show ?case by (simp add: cut_before_Cons)
qed

lemma split_at_first: "sep \<noteq> [] \<Longrightarrow> split_at s sep 0 = Inr (cut_before s sep)"
  using split_from_first [of sep "[]" s] split_from_length [of sep "[]" s]
  by (simp add: split_at_def py_split_def py_index_def)

lemma markers_nonempty: "diamond \<noteq> []" "bracket \<noteq> []" "formerly \<noteq> []" "nbsp \<noteq> []"
  by (simp_all add: diamond_def bracket_def formerly_def nbsp_def ascii_def)

lemma step_neg1:
  "m \<noteq> [] \<Longrightarrow>
   (if py_find t m \<noteq> - 1 then split_at t m 0 else Inr t) = Inr (cut_before t m)"
  by (simp add: split_at_first) (simp add: py_find_def cut_before_def split: option.splits)

lemma step_truthy:
  "m \<noteq> [] \<Longrightarrow>
   (if py_find t m \<noteq> 0 then split_at t m 0 else Inr t) =
   Inr (if py_find t m \<noteq> 0 then cut_before t m else t)"
  by (simp add: split_at_first)

text \<open>The normalizer as a composition of its steps, none of which can raise.\<close>

lemma clean_text_steps:
  "clean_text x =
     Inr (py_replace
           (cut_before (cut_before (cut_marker (py_replace (py_strip x) nbsp [])) bracket)
              formerly)
           newline [])"
  unfolding clean_text_def Let_def cut_marker_def
  by (simp add: step_neg1 step_truthy markers_nonempty split del: if_split)

lemma clean_text_returns: "\<exists>s. clean_text x = Inr s"
  by (simp add: clean_text_steps)

section \<open>The text normalizer is total\<close>

text \<open>
  Claim C9. \<open>clean_text\<close> returns a string for every input: neither \<open>split\<close> (its
  separators are not empty) nor the index \<open>[0]\<close> (a split has at least one piece) can
  raise. The empty string is returned for the empty input.
\<close>

theorem clean_text_total: "(\<exists>s. clean_text t = Inr s) \<and> clean_text [] = Inr []"
proof
  show "\<exists>s. clean_text t = Inr s" by (simp add: clean_text_steps)
  show "clean_text [] = Inr []" by (simp add: text_eval)
qed

theorem clean_text_total_witness:
  "(\<exists>s. clean_text (ascii ''Wembley[1]'') = Inr s) \<and> clean_text [] = Inr []"
  using clean_text_total [of "ascii ''Wembley[1]''"] by simp

section \<open>Rows of three to five cells\<close>

lemma cell_or_empty_returns: "\<exists>s. cell_or_empty tds n = Inr s"
  using clean_text_returns
  by (simp add: cell_or_empty_def py_index_def py_bind_def)

text \<open>
  Claim C1. The extractor reads \<open>tds[5]\<close> with no test of the row's length, unlike
  the cells 3, 4 and 6: for a row of three, four or five cells the loop body raises
  \<open>IndexError\<close> and no record is produced. The claim promises a record with the
  sentinel image for such a row.
\<close>

theorem extract_row_raises:
  assumes "3 \<le> length tds" and "length tds \<le> 5"
  shows "extract_row i tds = Inl IndexError"
proof -
  obtain s0 where s0: "clean_text (cell_text (tds ! 0)) = Inr s0"
    using clean_text_returns by blast
  obtain s1 where s1: "clean_text (cell_text (tds ! Suc 0)) = Inr s1"
    using clean_text_returns by blast
  obtain s2 where s2: "cell_or_empty tds 2 = Inr s2"
    using cell_or_empty_returns by blast
  obtain s3 where s3: "cell_or_empty tds 3 = Inr s3"
    using cell_or_empty_returns by blast
  obtain s4 where s4: "cell_or_empty tds 4 = Inr s4"
    using cell_or_empty_returns by blast
  have i5: "py_index tds 5 = Inl IndexError"
    using assms by (simp add: py_index_def)
  have i0: "py_index tds 0 = Inr (tds ! 0)"
    and i1: "py_index tds (Suc 0) = Inr (tds ! Suc 0)"
    using assms by (auto simp add: py_index_def)
  show ?thesis
    using assms by (auto simp add: extract_row_def py_bind_def i0 i1 i5 s0 s1 s2 s3 s4)
qed

theorem extract_row_raises_witness:
  "extract_row 1 [td ''Wembley'', td ''90,000'', td ''UEFA''] = Inl IndexError \<and>
   extract_soup
     [\<lparr>tbl_classes = [ascii ''wikitable''],
       tbl_rows = [[], [td ''Wembley'', td ''90,000'', td ''UEFA'']]\<rparr>] = Inl IndexError"
proof -
  have r: "extract_row 1 [td ''Wembley'', td ''90,000'', td ''UEFA''] = Inl IndexError"
    using extract_row_raises [of "[td ''Wembley'', td ''90,000'', td ''UEFA'']" 1] by simp
  have f: "find_all_table
     [\<lparr>tbl_classes = [ascii ''wikitable''],
       tbl_rows = [[], [td ''Wembley'', td ''90,000'', td ''UEFA'']]\<rparr>] primary_classes
     = [\<lparr>tbl_classes = [ascii ''wikitable''],
       tbl_rows = [[], [td ''Wembley'', td ''90,000'', td ''UEFA'']]\<rparr>]"
    by (simp add: find_all_table_def primary_classes_def ascii_def)
  show ?thesis
    using r by (simp add: extract_soup_def f py_bind_def)
qed


section \<open>Properties of the extractors\<close>

lemmas row_eval =
  extract_row_def ft_extract_row_def cell_or_empty_def image_of_def py_bind_def td_def row7_def

lemma py_bind_Inr: "py_bind m f = Inr y \<longleftrightarrow> (\<exists>x. m = Inr x \<and> f x = Inr y)"
  by (cases m) (simp_all add: py_bind_def)

lemma extract_row_rank: "extract_row i tds = Inr (Some v) \<Longrightarrow> rank v = i"
  by (auto simp add: extract_row_def py_bind_Inr split: if_splits)

lemma ft_extract_row_rank: "ft_extract_row i tds = Inr (Some v) \<Longrightarrow> ft_rank v = i"
  by (auto simp add: ft_extract_row_def py_bind_Inr split: if_splits)

lemma extract_rows_ranks:
  "extract_rows i rows = Inr data \<Longrightarrow>
   length data = length rows \<and> (\<forall>k<length rows. \<forall>v. data ! k = Some v \<longrightarrow> rank v = i + k)"
proof (induction rows arbitrary: i data)
  case Nil
  then show ?case by simp
next
  case (Cons tds rest)
  from Cons.prems obtain vals data' where
    v: "extract_row i tds = Inr vals" and
    d: "extract_rows (Suc i) rest = Inr data'" and
    e: "data = vals # data'"
    by (auto simp add: py_bind_Inr)
  from Cons.IH [OF d] have
    l: "length data' = length rest" and
    r: "\<forall>k<length rest. \<forall>v. data' ! k = Some v \<longrightarrow> rank v = Suc i + k"
    by simp_all
  show ?case
  proof (intro conjI allI impI)
    show "length data = length (tds # rest)" using l e by simp
  next
    fix k v
    assume k: "k < length (tds # rest)" and dv: "data ! k = Some v"
    show "rank v = i + k"
    proof (cases k)
      case 0
      then show ?thesis using dv e v extract_row_rank by simp
    next
      case (Suc j)
      then show ?thesis using dv e r k by simp
    qed
  qed
qed

lemma ft_extract_rows_ranks:
  "ft_extract_rows i rows = Inr data \<Longrightarrow>
   length data = length rows \<and>
   (\<forall>k<length rows. \<forall>v. data ! k = Some v \<longrightarrow> ft_rank v = i + k)"
proof (induction rows arbitrary: i data)
  case Nil
  then show ?case by simp
next
  case (Cons tds rest)
  from Cons.prems obtain vals data' where
    v: "ft_extract_row i tds = Inr vals" and
    d: "ft_extract_rows (Suc i) rest = Inr data'" and
    e: "data = vals # data'"
    by (auto simp add: py_bind_Inr)
  from Cons.IH [OF d] have
    l: "length data' = length rest" and
    r: "\<forall>k<length rest. \<forall>v. data' ! k = Some v \<longrightarrow> ft_rank v = Suc i + k"
    by simp_all
  show ?case
  proof (intro conjI allI impI)
    show "length data = length (tds # rest)" using l e by simp
  next
    fix k v
    assume k: "k < length (tds # rest)" and dv: "data ! k = Some v"
    show "ft_rank v = i + k"
    proof (cases k)
      case 0
      then show ?thesis using dv e v ft_extract_row_rank by simp
    next
      case (Suc j)
      then show ?thesis using dv e r k by simp
    qed
  qed
qed

text \<open>Entries numbered by position give strictly increasing numbers in a range.\<close>

lemma emitted_numbered:
  "\<forall>k<length data. \<forall>v. data ! k = Some v \<longrightarrow> f v = i + k \<Longrightarrow>
   sorted_wrt (<) (map f (emitted data)) \<and>
   set (map f (emitted data)) \<subseteq> {i..<i + length data}"
proof (induction data arbitrary: i)
  case Nil
  then show ?case by (simp add: emitted_def)
next
  case (Cons r data)
  have "\<forall>k<length data. \<forall>v. data ! k = Some v \<longrightarrow> f v = Suc i + k"
  proof (intro allI impI)
    fix k v assume "k < length data" and "data ! k = Some v"
    then show "f v = Suc i + k" using Cons.prems [rule_format, of "Suc k" v] by simp
  qed
  from Cons.IH [OF this] have
    s: "sorted_wrt (<) (map f (emitted data))" and
    b: "set (map f (emitted data)) \<subseteq> {Suc i..<Suc i + length data}"
    by simp_all
  have em: "emitted (r # data) = (case r of None \<Rightarrow> [] | Some v \<Rightarrow> [v]) @ emitted data"
    by (simp add: emitted_def)
  show ?case
  proof (cases r)
    case None
    then show ?thesis using s b em by auto
  next
    case (Some v)
    then have fv: "f v = i" using Cons.prems [rule_format, of 0 v] by simp
    have "\<forall>y \<in> set (map f (emitted data)). i < y" using b by auto
    then show ?thesis using s b em Some fv by auto
  qed
qed


section \<open>Rank numbering\<close>

text \<open>
  Claim C8. When the extractor returns a frame for a table with \<open>R\<close> data rows (the
  rows after the first), \<open>data\<close> has exactly \<open>R\<close> entries, one per data row, the entry
  of position \<open>k\<close> being empty or carrying rank \<open>k + 1\<close>; so the ranks of the emitted
  records are strictly increasing, distinct and within \<open>1..R\<close>. This holds for the
  extractor of the pipeline and for the one of \<open>findtable.py\<close>.
\<close>

theorem rank_numbering:
  "(find_all_table soup primary_classes = t # ts \<and> extract_soup soup = Inr (Some data) \<longrightarrow>
      length data = length (tbl_rows t) - 1 \<and>
      (\<forall>k<length data. \<forall>v. data ! k = Some v \<longrightarrow> rank v = k + 1) \<and>
      sorted_wrt (<) (map rank (emitted data)) \<and>
      distinct (map rank (emitted data)) \<and>
      set (map rank (emitted data)) \<subseteq> {1..length (tbl_rows t) - 1}) \<and>
   (ft_tables soup = t' # ts' \<and> ft_get_wikipedia_data soup = Inr (Some fdata) \<longrightarrow>
      length fdata = length (tbl_rows t') - 1 \<and>
      (\<forall>k<length fdata. \<forall>v. fdata ! k = Some v \<longrightarrow> ft_rank v = k + 1) \<and>
      sorted_wrt (<) (map ft_rank (emitted fdata)) \<and>
      distinct (map ft_rank (emitted fdata)) \<and>
      set (map ft_rank (emitted fdata)) \<subseteq> {1..length (tbl_rows t') - 1})"
proof (intro conjI impI; elim conjE)
  assume f: "find_all_table soup primary_classes = t # ts"
    and e: "extract_soup soup = Inr (Some data)"
  from f e have "extract_rows 1 (drop 1 (tbl_rows t)) = Inr data"
    by (auto simp add: extract_soup_def py_bind_Inr)
  from extract_rows_ranks [OF this] have
    l: "length data = length (tbl_rows t) - 1" and
    n: "\<forall>k<length data. \<forall>v. data ! k = Some v \<longrightarrow> rank v = 1 + k"
    by simp_all
  from emitted_numbered [OF n] have
    s: "sorted_wrt (<) (map rank (emitted data))" and
    b: "set (map rank (emitted data)) \<subseteq> {1..<1 + length data}"
    by simp_all
  show "length data = length (tbl_rows t) - 1" by (fact l)
  show "\<forall>k<length data. \<forall>v. data ! k = Some v \<longrightarrow> rank v = k + 1" using n by simp
  show "sorted_wrt (<) (map rank (emitted data))" by (fact s)
  show "distinct (map rank (emitted data))"
    using s strict_sorted_iff by blast
  show "set (map rank (emitted data)) \<subseteq> {1..length (tbl_rows t) - 1}"
    using b l by auto
next
  assume f: "ft_tables soup = t' # ts'"
    and e: "ft_get_wikipedia_data soup = Inr (Some fdata)"
  from f e have "ft_extract_rows 1 (drop 1 (tbl_rows t')) = Inr fdata"
    by (auto simp add: ft_get_wikipedia_data_def py_bind_Inr)
  from ft_extract_rows_ranks [OF this] have
    l: "length fdata = length (tbl_rows t') - 1" and
    n: "\<forall>k<length fdata. \<forall>v. fdata ! k = Some v \<longrightarrow> ft_rank v = 1 + k"
    by simp_all
  from emitted_numbered [OF n] have
    s: "sorted_wrt (<) (map ft_rank (emitted fdata))" and
    b: "set (map ft_rank (emitted fdata)) \<subseteq> {1..<1 + length fdata}"
    by simp_all
  show "length fdata = length (tbl_rows t') - 1" by (fact l)
  show "\<forall>k<length fdata. \<forall>v. fdata ! k = Some v \<longrightarrow> ft_rank v = k + 1" using n by simp
  show "sorted_wrt (<) (map ft_rank (emitted fdata))" by (fact s)
  show "distinct (map ft_rank (emitted fdata))"
    using s strict_sorted_iff by blast
  show "set (map ft_rank (emitted fdata)) \<subseteq> {1..length (tbl_rows t') - 1}"
    using b l by auto
qed

lemma five_rows_found:
  "find_all_table five_rows primary_classes = five_rows"
  "ft_tables five_rows = five_rows"
  by (simp_all add: ft_tables_def find_all_table_def five_rows_def primary_classes_def ascii_def Let_def)

lemma row7_extract: "\<exists>v. extract_row i (row7 s) = Inr (Some v) \<and> rank v = i"
proof -
  have c: "\<exists>a. clean_text (cell_text (td x)) = Inr a" for x
    using clean_text_returns by blast
  obtain a0 where a0: "clean_text (cell_text (td s)) = Inr a0" using c by blast
  obtain a1 where a1: "clean_text (cell_text (td ''90,000'')) = Inr a1" using c by blast
  obtain a2 where a2: "clean_text (cell_text (td ''UEFA'')) = Inr a2" using c by blast
  obtain a3 where a3: "clean_text (cell_text (td ''England'')) = Inr a3" using c by blast
  obtain a4 where a4: "clean_text (cell_text (td ''London'')) = Inr a4" using c by blast
  obtain a6 where a6: "clean_text (cell_text (td ''Spurs'')) = Inr a6" using c by blast
  have i: "cell_img (td []) = None" by (simp add: td_def)
  show ?thesis
    by (simp add: extract_row_def cell_or_empty_def image_of_def py_bind_def row7_def
        py_index_def a0 a1 a2 a3 a4 a6 i)
qed

lemma short_row_extract: "length tds < 3 \<Longrightarrow> extract_row i tds = Inr None"
  by (simp add: extract_row_def)

lemma five_rows_extracted:
  "\<exists>data. extract_soup five_rows = Inr (Some data) \<and>
     map (map_option rank) data = [Some 1, None, Some 3, Some 4]"
proof -
  obtain v1 where v1: "extract_row 1 (row7 ''Camp Nou'') = Inr (Some v1)" "rank v1 = 1"
    using row7_extract by blast
  obtain v3 where v3: "extract_row 3 (row7 ''Wembley'') = Inr (Some v3)" "rank v3 = 3"
    using row7_extract by blast
  obtain v4 where v4: "extract_row 4 (row7 ''Anfield'') = Inr (Some v4)" "rank v4 = 4"
    using row7_extract by blast
  have v2: "extract_row 2 [td ''x'', td ''y''] = Inr None"
    by (simp add: short_row_extract)
  have "extract_rows 1 [row7 ''Camp Nou'', [td ''x'', td ''y''], row7 ''Wembley'',
          row7 ''Anfield''] = Inr [Some v1, None, Some v3, Some v4]"
    using v1 v2 v3 v4 by (simp add: py_bind_def numeral_2_eq_2 numeral_3_eq_3 eval_nat_numeral)
  then show ?thesis
    unfolding extract_soup_def five_rows_found
    using v1 v3 v4 by (simp add: five_rows_def py_bind_def)
qed

lemma row7_ft_extract: "\<exists>v. ft_extract_row i (row7 s) = Inr (Some v) \<and> ft_rank v = i"
  by (simp add: ft_extract_row_def py_bind_def row7_def py_index_def)

lemma short_row_ft_extract: "length tds < 3 \<Longrightarrow> ft_extract_row i tds = Inr None"
  by (simp add: ft_extract_row_def)

lemma five_rows_ft_extracted:
  "\<exists>data. ft_get_wikipedia_data five_rows = Inr (Some data) \<and>
     map (map_option ft_rank) data = [Some 1, None, Some 3, Some 4]"
proof -
  obtain v1 where v1: "ft_extract_row 1 (row7 ''Camp Nou'') = Inr (Some v1)" "ft_rank v1 = 1"
    using row7_ft_extract by blast
  obtain v3 where v3: "ft_extract_row 3 (row7 ''Wembley'') = Inr (Some v3)" "ft_rank v3 = 3"
    using row7_ft_extract by blast
  obtain v4 where v4: "ft_extract_row 4 (row7 ''Anfield'') = Inr (Some v4)" "ft_rank v4 = 4"
    using row7_ft_extract by blast
  have v2: "ft_extract_row 2 [td ''x'', td ''y''] = Inr None"
    by (simp add: short_row_ft_extract)
  have "ft_extract_rows 1 [row7 ''Camp Nou'', [td ''x'', td ''y''], row7 ''Wembley'',
          row7 ''Anfield''] = Inr [Some v1, None, Some v3, Some v4]"
    using v1 v2 v3 v4 by (simp add: py_bind_def numeral_2_eq_2 numeral_3_eq_3 eval_nat_numeral)
  then show ?thesis
    unfolding ft_get_wikipedia_data_def five_rows_found
    using v1 v3 v4 by (simp add: five_rows_def py_bind_def)
qed

theorem rank_numbering_witness:
  "\<exists>data fdata.
     extract_soup five_rows = Inr (Some data) \<and> length data = 4 \<and>
     map rank (emitted data) = [1, 3, 4] \<and> sorted_wrt (<) (map rank (emitted data)) \<and>
     ft_get_wikipedia_data five_rows = Inr (Some fdata) \<and> length fdata = 4 \<and>
     sorted_wrt (<) (map ft_rank (emitted fdata))"
proof -
  obtain data where d: "extract_soup five_rows = Inr (Some data)"
    and dr: "map (map_option rank) data = [Some 1, None, Some 3, Some 4]"
    using five_rows_extracted by auto
  obtain fdata where f: "ft_get_wikipedia_data five_rows = Inr (Some fdata)"
    using five_rows_ft_extracted by auto
  obtain t where t: "five_rows = [t]" and tl: "length (tbl_rows t) = 5"
    by (simp add: five_rows_def)
  have p: "find_all_table five_rows primary_classes = t # []"
    and q: "ft_tables five_rows = t # []"
    using five_rows_found t by simp_all
  note r = rank_numbering [of five_rows t "[]" data t "[]" fdata]
  have e: "map rank (emitted data) = [1, 3, 4]"
    using dr by (auto simp add: emitted_def map_eq_Cons_conv)
  show ?thesis
    using r p q d f tl e by auto
qed

section \<open>Short rows\<close>

text \<open>
  Claim C2. A row of fewer than three cells is not left out of the output: both
  extractors append its empty dictionary to \<open>data\<close>, so the frame has one (all-NaN)
  row for it. For the table of one header row and four data rows, one of them of two
  cells, \<open>data\<close> has four entries and not three; the ranks of the others are 1, 3, 4.
\<close>

theorem short_row_appends_empty:
  assumes "length tds < 3"
  shows "extract_rows i (tds # rest) =
           py_bind (extract_rows (Suc i) rest) (\<lambda>data. Inr (None # data)) \<and>
         ft_extract_rows i (tds # rest) =
           py_bind (ft_extract_rows (Suc i) rest) (\<lambda>data. Inr (None # data))"
  using assms by (simp add: short_row_extract short_row_ft_extract py_bind_def)

theorem short_row_appends_empty_witness:
  "(\<exists>data. extract_soup five_rows = Inr (Some data) \<and> length data = 4 \<and> data ! 1 = None \<and>
      map (map_option rank) data = [Some 1, None, Some 3, Some 4]) \<and>
   (\<exists>data. ft_get_wikipedia_data five_rows = Inr (Some data) \<and> length data = 4 \<and>
      data ! 1 = None \<and> map (map_option ft_rank) data = [Some 1, None, Some 3, Some 4]) \<and>
   extract_rows 2 [[td ''x'', td ''y'']] = Inr [None] \<and>
   ft_extract_rows 2 [[td ''x'', td ''y'']] = Inr [None]"
proof -
  have s: "extract_rows 2 [[td ''x'', td ''y'']] = Inr [None] \<and>
           ft_extract_rows 2 [[td ''x'', td ''y'']] = Inr [None]"
    using short_row_appends_empty [of "[td ''x'', td ''y'']" 2 "[]"]
    by (simp add: py_bind_def)
  obtain data where d: "extract_soup five_rows = Inr (Some data)"
    and dr: "map (map_option rank) data = [Some 1, None, Some 3, Some 4]"
    using five_rows_extracted by auto
  obtain fdata where f: "ft_get_wikipedia_data five_rows = Inr (Some fdata)"
    and fr: "map (map_option ft_rank) fdata = [Some 1, None, Some 3, Some 4]"
    using five_rows_ft_extracted by auto
  have "length data = 4 \<and> data ! 1 = None"
    using dr by (auto simp add: map_eq_Cons_conv)
  moreover have "length fdata = 4 \<and> fdata ! 1 = None"
    using fr by (auto simp add: map_eq_Cons_conv)
  ultimately show ?thesis
    using s d dr f fr by simp
qed

lemma ft_extract_row_returns: "\<exists>v. ft_extract_row i tds = Inr v"
  by (auto simp add: ft_extract_row_def py_bind_def py_index_def)

lemma ft_extract_rows_returns:
  "\<exists>data. ft_extract_rows i rows = Inr data \<and> length data = length rows"
proof (induction rows arbitrary: i)
  case Nil
  show ?case by simp
next
  case (Cons tds rest)
  obtain v where v: "ft_extract_row i tds = Inr v"
    using ft_extract_row_returns by blast
  obtain data where d: "ft_extract_rows (Suc i) rest = Inr data" "length data = length rest"
    using Cons.IH by blast
  show ?case by (simp add: v d py_bind_def)
qed

section \<open>The table locator\<close>

text \<open>
  Claim C5. On a page where no table matches the primary class list and some table
  matches the alternative list, \<open>findtable.py\<close> extracts from the first such table,
  while \<open>extract_wikipedia_data\<close> and \<open>get_wikipedia_data\<close> of the pipeline, which
  search the primary list only, return \<open>None\<close>.
\<close>

theorem fallback_missing_in_pipeline:
  assumes "find_all_table soup primary_classes = []"
    and "find_all_table soup secondary_classes = t # ts"
  shows "extract_soup soup = Inr None \<and>
         get_wikipedia_data (\<lambda>html. soup) html = None \<and>
         (\<exists>data. ft_get_wikipedia_data soup = Inr (Some data) \<and>
            length data = length (tbl_rows t) - 1)"
proof -
  obtain data where d: "ft_extract_rows 1 (drop 1 (tbl_rows t)) = Inr data"
    "length data = length (drop 1 (tbl_rows t))"
    using ft_extract_rows_returns by blast
  show ?thesis
    using assms d
    by (simp add: extract_soup_def get_wikipedia_data_def ft_get_wikipedia_data_def ft_tables_def
        py_bind_def)
qed

theorem fallback_missing_in_pipeline_witness:
  "extract_soup standard_page = Inr None \<and>
   get_wikipedia_data (\<lambda>html. standard_page) [] = None \<and>
   (\<exists>data. ft_get_wikipedia_data standard_page = Inr (Some data) \<and> length data = 1)"
proof -
  obtain t where t: "standard_page = [t]" and tc: "tbl_classes t = [ascii ''standard'']"
    and tr: "length (tbl_rows t) = 2"
    by (simp add: standard_page_def)
  have p: "find_all_table standard_page primary_classes = []"
    unfolding t by (simp add: tc find_all_table_def primary_classes_def ascii_def)
  have q: "find_all_table standard_page secondary_classes = t # []"
    unfolding t by (simp add: tc find_all_table_def secondary_classes_def ascii_def)
  show ?thesis
    using fallback_missing_in_pipeline [OF p q, of "[]"] tr by simp
qed

section \<open>The preferred-name marker at index 0\<close>

text \<open>
  Claim C7. When the marker stands at index 0 of the text (after the strip and the
  removal of the \<open>&nbsp\<close> token), \<open>find\<close> returns 0, which the test
  \<open>if text.find(marker):\<close> takes as false: the marker step is skipped and the text
  is not truncated at the marker. The claim promises the empty prefix there.
\<close>

theorem marker_at_start_not_cut:
  assumes "py_find (py_replace (py_strip x) nbsp []) diamond = 0"
  shows "clean_text x =
           Inr (py_replace
                 (cut_before (cut_before (py_replace (py_strip x) nbsp []) bracket) formerly)
                 newline [])"
  using assms by (simp add: clean_text_steps cut_marker_def)

theorem marker_at_start_not_cut_witness:
  "py_find (py_replace (py_strip (ascii ''&nbsp'' @ diamond @ ascii ''Camp Nou'')) nbsp [])
     diamond = 0 \<and>
   clean_text (ascii ''&nbsp'' @ diamond @ ascii ''Camp Nou'') =
     Inr (diamond @ ascii ''Camp Nou'')"
proof -
  have t: "py_replace (py_strip (ascii ''&nbsp'' @ diamond @ ascii ''Camp Nou'')) nbsp [] =
           diamond @ ascii ''Camp Nou''"
    by (simp add: text_eval)
  have f: "py_find (diamond @ ascii ''Camp Nou'') diamond = 0"
    by (simp add: text_eval)
  have c: "py_replace (cut_before (cut_before (diamond @ ascii ''Camp Nou'') bracket) formerly)
             newline [] = diamond @ ascii ''Camp Nou''"
    by (simp add: text_eval cut_before_def)
  note m = marker_at_start_not_cut [of "ascii ''&nbsp'' @ diamond @ ascii ''Camp Nou''",
      unfolded t, OF f, unfolded c]
  show ?thesis
    unfolding t using f m by simp
qed

section \<open>The flow hands the URL to the extractor\<close>

text \<open>
  Claim C10. The flow calls the extractor on the \<open>url\<close> string itself, which is parsed
  as HTML. When that parse holds no table of the primary class list, as for a bare
  URL, the extractor returns \<open>None\<close> and the flow ends with the world unchanged: no
  file is written, no page is fetched and the geocoder is not queried.
\<close>

theorem flow_parses_url:
  assumes "find_all_table (html_parser url) primary_classes = []"
  shows "extract_wikipedia_data html_parser url = Inr None \<and>
         wikipedia_data_pipeline html_parser geocode to_int url output_file w = (None, w)"
  using assms
  by (simp add: wikipedia_data_pipeline_def extract_wikipedia_data_def extract_soup_def)

theorem flow_parses_url_witness:
  "extract_wikipedia_data parser_double stadium_url = Inr None \<and>
   wikipedia_data_pipeline parser_double (\<lambda>n q. None) decimal_int stadium_url
     (ascii ''stadiums.csv'') empty_world = (None, empty_world)"
proof -
  have "60 \<notin> set stadium_url"
    by (simp add: stadium_url_def ascii_def)
  then have "find_all_table (parser_double stadium_url) primary_classes = []"
    by (simp add: parser_double_def find_all_table_def)
  from flow_parses_url [of parser_double stadium_url "\<lambda>n q. None" decimal_int
      "ascii ''stadiums.csv''" empty_world] this
  show ?thesis by simp
qed

section \<open>Properties of the enrichment stage\<close>















section \<open>Capacity conversion\<close>





section \<open>The dedup pass\<close>








section \<open>Occurrences and prefixes\<close>





























section \<open>The normalizer cuts at the earliest truncation point\<close>




end
